theory Spec2Isabelle
  imports Complex_Main "HOL-Library.Word" "HOL-Library.Signed_Division"
begin

section \<open>The LBA metadata cache of 0-Disk (nbdserver/lba)\<close>

text \<open>
  The development embeds \<^verbatim>\<open>nbdserver/lba/lba.go\<close>: the LBA maps a block index to
  the hash of the block's content, keeps the map in shards of 128 hashes inside a bounded
  cache and persists the shards through connections to a Redis-like metadata server.

  Go values are modelled as follows. A byte is an \<open>8 word\<close>; a byte slice is a list, and
  where the code tests a slice against \<^verbatim>\<open>nil\<close> it is an \<open>option\<close>. An \<^verbatim>\<open>int64\<close> is an
  \<open>int\<close> (no operation of the file can overflow: indices and counts are only divided by
  128, and a quotient incremented by one), with
  Go's truncating division and remainder (\<open>sdiv\<close>, \<open>smod\<close>). A \<^verbatim>\<open>*shard\<close> is an
  optional address into a heap of shards. Every method threads the LBA together with its
  environment (heap, external world, trace of effects) explicitly.
\<close>

subsection \<open>Bytes, hashes, errors\<close>

type_synonym byte = "8 word"
type_synonym bytes = "byte list"

text \<open>A \<^verbatim>\<open>Hash\<close> is a byte slice; the \<^verbatim>\<open>nil\<close> hash is the empty slice.\<close>

type_synonym Hash = bytes

definition NumberOfRecordsPerLBAShard :: int where
  "NumberOfRecordsPerLBAShard = 128"

text \<open>
  Modelled from the spec: the hash width H, "an implementation parameter, commonly 32";
  the declaration of the hash type is not among the sources.
\<close>

definition HashSize :: nat where
  "HashSize = 32"

text \<open>
  Modelled from the spec: NilHash "is the all-zero byte string"; \<open>IsNil h\<close> is "true iff h
  is byte-equal to NilHash or is the empty/absent value". The width is a parameter here.
\<close>

definition NilHash :: "nat \<Rightarrow> Hash" where
  "NilHash h = replicate h 0"

definition IsNil :: "nat \<Rightarrow> Hash \<Rightarrow> bool" where
  "IsNil h x = (x = NilHash h \<or> x = [])"

datatype error =
    ErrNilProvider
    \<comment> \<open>\<^verbatim>\<open>errors.New("NewLBA requires a non-nil MetaRedisProvider")\<close>\<close>
  | ErrSerializeEvicted int error
    \<comment> \<open>\<^verbatim>\<open>fmt.Errorf("couldn't serialize evicted shard %d: %s", index, err)\<close>\<close>
  | ErrCorruptShard
    \<comment> \<open>the failure of \<^verbatim>\<open>shardFromBytes\<close>\<close>
  | ErrRedisNil
    \<comment> \<open>redigo's \<^verbatim>\<open>ErrNil\<close>\<close>
  | ErrRedisType
    \<comment> \<open>redigo's "unexpected type for Bytes"\<close>
  | ErrExternal string
    \<comment> \<open>any error a provider or a connection returns\<close>

datatype panic =
    IndexOutOfRange
  | MakeSliceLenOutOfRange
    \<comment> \<open>\<^verbatim>\<open>panic: runtime error: makeslice: len out of range\<close>\<close>
  | OutOfMemory
    \<comment> \<open>\<^verbatim>\<open>fatal error: runtime: out of memory\<close>\<close>
  | NilDereference

datatype 'a outcome = Ret 'a | Panic panic

subsection \<open>Shards\<close>

text \<open>
  Modelled from the spec: the shard type and its methods (\<^verbatim>\<open>newShard\<close>,
  \<^verbatim>\<open>shardFromBytes\<close>, \<^verbatim>\<open>Get\<close>, \<^verbatim>\<open>Set\<close>, \<^verbatim>\<open>Dirty\<close>, \<^verbatim>\<open>UnsetDirty\<close>, \<^verbatim>\<open>Write\<close>) are
  not among the sources. A shard is "a dense array of exactly R = 128 Hash slots" with
  a dirty bit.
\<close>

record shard =
  hashes :: "Hash list"
  dirty :: bool

text \<open>Modelled from the spec: "records: R Hash slots, initially all NilHash".\<close>

definition newShard :: "nat \<Rightarrow> shard" where
  "newShard h = \<lparr>hashes = replicate (nat NumberOfRecordsPerLBAShard) (NilHash h), dirty = False\<rparr>"

text \<open>
  Modelled from the spec: "Get(i: 0..R-1) \<rightarrow> Hash" and "Set(i: 0..R-1, h): writes the
  slot", with the contract "always mark dirty on Set". An index outside \<open>0..R-1\<close> is an
  out-of-range access to the array, which panics in Go.
\<close>

definition shardGet :: "shard \<Rightarrow> int \<Rightarrow> Hash outcome" where
  "shardGet s hashIndex =
     (if hashIndex < 0 \<or> int (length (hashes s)) \<le> hashIndex then Panic IndexOutOfRange
      else Ret (hashes s ! nat hashIndex))"

definition shardSet :: "shard \<Rightarrow> int \<Rightarrow> Hash \<Rightarrow> shard outcome" where
  "shardSet s hashIndex h =
     (if hashIndex < 0 \<or> int (length (hashes s)) \<le> hashIndex then Panic IndexOutOfRange
      else Ret (s\<lparr>hashes := (hashes s)[nat hashIndex := h], dirty := True\<rparr>))"

text \<open>Modelled from the spec: "UnsetDirty(): clears the dirty bit".\<close>

definition shardUnsetDirty :: "shard \<Rightarrow> shard" where
  "shardUnsetDirty s = s\<lparr>dirty := False\<rparr>"

text \<open>
  Modelled from the spec: "Write(sink): serializes the shard to a byte sink. Format is R
  concatenated H-byte hashes". The sink is the buffer written so far; writing to an
  in-memory buffer returns no error.
\<close>

fun writeHashes :: "Hash list \<Rightarrow> bytes \<Rightarrow> bytes" where
  "writeHashes [] sink = sink"
| "writeHashes (h # hs) sink = writeHashes hs (sink @ h)"

definition shardWrite :: "shard \<Rightarrow> bytes \<Rightarrow> bytes \<times> error option" where
  "shardWrite s sink = (writeHashes (hashes s) sink, None)"

text \<open>
  Modelled from the spec: "ShardFromBytes(buf): deserializes a buffer whose length MUST
  equal R*H; returns a non-dirty shard. Fails with CorruptShard if the length differs",
  and "Slot i occupies bytes [i*H, (i+1)*H)".
\<close>

fun readHashes :: "nat \<Rightarrow> nat \<Rightarrow> bytes \<Rightarrow> Hash list" where
  "readHashes 0 h buf = []"
| "readHashes (Suc n) h buf = take h buf # readHashes n h (drop h buf)"

definition shardFromBytes :: "nat \<Rightarrow> bytes \<Rightarrow> error + shard" where
  "shardFromBytes h buf =
     (if length buf \<noteq> nat NumberOfRecordsPerLBAShard * h then Inl ErrCorruptShard
      else Inr \<lparr>hashes = readHashes (nat NumberOfRecordsPerLBAShard) h buf, dirty = False\<rparr>)"

text \<open>A shard of the data model: exactly R slots, each a hash of H bytes.\<close>

definition validShard :: "nat \<Rightarrow> shard \<Rightarrow> bool" where
  "validShard h s =
     (length (hashes s) = nat NumberOfRecordsPerLBAShard \<and> list_all (\<lambda>x. length x = h) (hashes s))"

subsection \<open>The metadata server\<close>

text \<open>
  \<^verbatim>\<open>MetaRedisProvider\<close> is an interface; its implementations and the connections they
  return (redigo's \<^verbatim>\<open>redis.Conn\<close>) are outside the repository. A provider is therefore a
  record of functions over an arbitrary state \<open>'w\<close> of the outside world: acquiring a
  connection, \<^verbatim>\<open>Do\<close>, \<^verbatim>\<open>Send\<close> and \<^verbatim>\<open>Close\<close> on a connection. Every theorem below that
  quantifies over the provider holds for every behaviour of the server and the network.
\<close>

type_synonym conn = nat

datatype arg = ArgString string | ArgInt int | ArgBytes bytes

datatype reply =
    ReplyNil
  | ReplyBytes bytes
  | ReplyString string
  | ReplyInt int
  | ReplyArray "reply list"
  | ReplyError string

record 'w MetaRedisProvider =
  MetaRedisConnection :: "'w \<Rightarrow> (error + conn) \<times> 'w"
  connDo :: "conn \<Rightarrow> string \<Rightarrow> arg list \<Rightarrow> 'w \<Rightarrow> (reply \<times> error option) \<times> 'w"
  connSend :: "conn \<Rightarrow> string \<Rightarrow> arg list \<Rightarrow> 'w \<Rightarrow> error option \<times> 'w"
  connClose :: "conn \<Rightarrow> 'w \<Rightarrow> 'w"

text \<open>redigo's \<^verbatim>\<open>redis.Bytes(reply, err)\<close>.\<close>

definition redisBytes :: "reply \<Rightarrow> error option \<Rightarrow> bytes \<times> error option" where
  "redisBytes reply err =
     (case err of
        Some e \<Rightarrow> ([], Some e)
      | None \<Rightarrow>
          (case reply of
             ReplyBytes b \<Rightarrow> (b, None)
           | ReplyString s \<Rightarrow> (map (\<lambda>c. of_nat (of_char c)) s, None)
           | ReplyNil \<Rightarrow> ([], Some ErrRedisNil)
           | ReplyError m \<Rightarrow> ([], Some (ErrExternal m))
           | _ \<Rightarrow> ([], Some ErrRedisType)))"

subsection \<open>The state of an LBA and the trace of its effects\<close>

type_synonym addr = nat

text \<open>
  The effects of a call, in the order in which the code performs them. Calls on a
  connection carry what the connection answered.
\<close>

datatype event =
    EvLock int
    \<comment> \<open>\<^verbatim>\<open>lba.shardMux[i].Lock()\<close>\<close>
  | EvUnlock int
    \<comment> \<open>\<^verbatim>\<open>lba.shardMux[i].Unlock()\<close>\<close>
  | EvCacheGet int
    \<comment> \<open>\<^verbatim>\<open>lba.cache.Get(index)\<close>\<close>
  | EvCacheAdd int "addr option"
    \<comment> \<open>\<^verbatim>\<open>lba.cache.Add(index, shard)\<close>\<close>
  | EvCacheSerialize
    \<comment> \<open>\<^verbatim>\<open>lba.cache.Serialize(...)\<close>\<close>
  | EvCacheClear bool
    \<comment> \<open>\<^verbatim>\<open>lba.cache.Clear(evict)\<close>\<close>
  | EvShardSet addr int Hash
    \<comment> \<open>\<^verbatim>\<open>shard.Set(hashIndex, h)\<close>\<close>
  | EvShardGet addr int
    \<comment> \<open>\<^verbatim>\<open>shard.Get(hashIndex)\<close>\<close>
  | EvConnect "error + conn"
    \<comment> \<open>\<^verbatim>\<open>lba.provider.MetaRedisConnection()\<close> and its result\<close>
  | EvDo conn string "arg list" reply "error option"
    \<comment> \<open>\<^verbatim>\<open>conn.Do(cmd, args...)\<close> and its result\<close>
  | EvSend conn string "arg list" "error option"
    \<comment> \<open>\<^verbatim>\<open>conn.Send(cmd, args...)\<close> and its result\<close>
  | EvClose conn
    \<comment> \<open>\<^verbatim>\<open>conn.Close()\<close>\<close>
  | EvLog int error
    \<comment> \<open>\<^verbatim>\<open>log.Printf("[ERROR] error during eviction of shard %d: %s", index, err)\<close>\<close>

text \<open>
  Modelled from the spec: the shard cache is not among the sources. It is "a
  bounded-capacity cache of shards keyed by shard index" in recency order (most recently
  used first); an entry holds a shard or the tombstone (a nil shard).
\<close>

record shardCache =
  entries :: "(int \<times> addr option) list"
  capacity :: nat

datatype Mutex = Mutex

text \<open>
  The struct \<^verbatim>\<open>LBA\<close> (its four fields first), extended by what its methods act on: the
  heap that holds the shards, the state of the outside world and the trace. A mutex is
  recorded by its \<open>EvLock\<close> and \<open>EvUnlock\<close> events; the model runs one call at a time.
\<close>

record 'w LBA =
  cache :: shardCache
  shardMux :: "Mutex list"
  provider :: "'w MetaRedisProvider"
  volumeID :: string
  heap :: "shard list"
  world :: 'w
  trace :: "event list"

definition logEvent :: "event \<Rightarrow> 'w LBA \<Rightarrow> 'w LBA" where
  "logEvent e l = l\<lparr>trace := trace l @ [e]\<rparr>"

definition acquire :: "'w LBA \<Rightarrow> (error + conn) \<times> 'w LBA" where
  "acquire l =
     (case MetaRedisConnection (provider l) (world l) of
        (r, w) \<Rightarrow> (r, logEvent (EvConnect r) (l\<lparr>world := w\<rparr>)))"

definition doCmd :: "conn \<Rightarrow> string \<Rightarrow> arg list \<Rightarrow> 'w LBA \<Rightarrow> (reply \<times> error option) \<times> 'w LBA" where
  "doCmd c name args l =
     (case connDo (provider l) c name args (world l) of
        ((rep, err), w) \<Rightarrow> ((rep, err), logEvent (EvDo c name args rep err) (l\<lparr>world := w\<rparr>)))"

definition sendCmd :: "conn \<Rightarrow> string \<Rightarrow> arg list \<Rightarrow> 'w LBA \<Rightarrow> error option \<times> 'w LBA" where
  "sendCmd c name args l =
     (case connSend (provider l) c name args (world l) of
        (err, w) \<Rightarrow> (err, logEvent (EvSend c name args err) (l\<lparr>world := w\<rparr>)))"

definition closeConn :: "conn \<Rightarrow> 'w LBA \<Rightarrow> 'w LBA" where
  "closeConn c l = logEvent (EvClose c) (l\<lparr>world := connClose (provider l) c (world l)\<rparr>)"

text \<open>
  Allocation of a shard on the heap: the new pointer is the next free address. Pointers
  come from \<open>alloc\<close> only, so a pointer held by the cache or by a caller is below the
  length of the heap; no theorem below depends on what \<open>heap l ! a\<close> is beyond it.
\<close>

definition alloc :: "shard \<Rightarrow> 'w LBA \<Rightarrow> addr \<times> 'w LBA" where
  "alloc s l = (length (heap l), l\<lparr>heap := heap l @ [s]\<rparr>)"

text \<open>
  Modelled from the spec: \<^verbatim>\<open>Dirty()\<close> on a shard pointer. On a shard it reads the dirty
  bit; the tombstone counts as dirty (a deletion "replaces any present entry with a
  tombstone marker [...] marking it dirty for flush purposes", and \<open>Serialize\<close> emits
  "for each dirty entry [...] the serialized shard or nil for tombstones").
\<close>

definition shardDirty :: "shard list \<Rightarrow> addr option \<Rightarrow> bool" where
  "shardDirty hp p = (case p of None \<Rightarrow> True | Some a \<Rightarrow> dirty (hp ! a))"

subsection \<open>The shard cache\<close>

text \<open>
  Modelled from the spec: "The maximum entry count is floor(byte_limit / (R*H)),
  min-capped to 1". The spec names no failure of the construction.
\<close>

definition newShardCache :: "int \<Rightarrow> shardCache \<times> error option" where
  "newShardCache sizeLimitInBytes =
     (\<lparr>entries = [],
       capacity = max 1 (nat (sizeLimitInBytes div (NumberOfRecordsPerLBAShard * int HashSize)))\<rparr>,
      None)"

text \<open>
  Modelled from the spec: "Get(index) \<rightarrow> (Shard | tombstone | absent). On a hit, the
  entry's recency becomes most-recent. A tombstone hit returns "absent" to the LBA layer
  but keeps the tombstone in the cache."
\<close>

definition cacheGet :: "shardCache \<Rightarrow> int \<Rightarrow> (addr option \<times> bool) \<times> shardCache" where
  "cacheGet c index =
     (case map_of (entries c) index of
        None \<Rightarrow> ((None, False), c)
      | Some s \<Rightarrow>
          ((s, s \<noteq> None),
           c\<lparr>entries := (index, s) # filter (\<lambda>e. fst e \<noteq> index) (entries c)\<rparr>))"

text \<open>
  Modelled from the spec: "Add(index, shard_or_tombstone): inserts or replaces. If a
  replacement, the previous entry is not evicted via callback. If insertion causes
  count > capacity, the least-recently-used entry is removed and on_evict is called with
  that index and its shard-or-tombstone", "the LRU entry is evicted first; the new entry
  is then inserted as most-recent". The callback is the one given to \<^verbatim>\<open>newShardCache\<close>.
\<close>

definition cacheAdd ::
  "(int \<Rightarrow> addr option \<Rightarrow> 'w LBA \<Rightarrow> 'w LBA) \<Rightarrow> int \<Rightarrow> addr option \<Rightarrow> 'w LBA \<Rightarrow> 'w LBA" where
  "cacheAdd onEvict index shard l0 =
     (let l = logEvent (EvCacheAdd index shard) l0; c = cache l in
      if map_of (entries c) index \<noteq> None
      then l\<lparr>cache := c\<lparr>entries := (index, shard) # filter (\<lambda>e. fst e \<noteq> index) (entries c)\<rparr>\<rparr>
      else if entries c \<noteq> [] \<and> capacity c \<le> length (entries c)
      then (case last (entries c) of
              (i, s) \<Rightarrow>
                (let l1 = onEvict i s (l\<lparr>cache := c\<lparr>entries := butlast (entries c)\<rparr>\<rparr>)
                 in l1\<lparr>cache := (cache l1)\<lparr>entries := (index, shard) # entries (cache l1)\<rparr>\<rparr>))
      else l\<lparr>cache := c\<lparr>entries := (index, shard) # entries c\<rparr>\<rparr>)"

text \<open>
  Modelled from the spec: "Serialize(emit): iterates every entry in unspecified order; for
  each dirty entry, calls emit(index, bytes) where bytes is the serialized shard or nil
  for tombstones. Does not clear dirty bits itself." The model iterates in recency order.
\<close>

definition serializedBytes :: "shard list \<Rightarrow> addr option \<Rightarrow> bytes option" where
  "serializedBytes hp p = (case p of None \<Rightarrow> None | Some a \<Rightarrow> Some (fst (shardWrite (hp ! a) [])))"

fun serializeEntries ::
  "(int \<Rightarrow> bytes option \<Rightarrow> 'w LBA \<Rightarrow> error option \<times> 'w LBA) \<Rightarrow> (int \<times> addr option) list
     \<Rightarrow> 'w LBA \<Rightarrow> 'w LBA" where
  "serializeEntries onSerialize [] l = l"
| "serializeEntries onSerialize ((index, shard) # es) l =
     (if shardDirty (heap l) shard
      then serializeEntries onSerialize es
             (snd (onSerialize index (serializedBytes (heap l) shard) l))
      else serializeEntries onSerialize es l)"

definition cacheSerialize ::
  "(int \<Rightarrow> bytes option \<Rightarrow> 'w LBA \<Rightarrow> error option \<times> 'w LBA) \<Rightarrow> 'w LBA \<Rightarrow> 'w LBA" where
  "cacheSerialize onSerialize l =
     serializeEntries onSerialize (entries (cache l)) (logEvent EvCacheSerialize l)"

text \<open>
  Modelled from the spec: "Clear(evict: bool): removes all entries. If evict is true,
  calls on_evict for each entry (dirty or not) before removal; if false, drops them
  silently."
\<close>

fun evictEntries ::
  "(int \<Rightarrow> addr option \<Rightarrow> 'w LBA \<Rightarrow> 'w LBA) \<Rightarrow> (int \<times> addr option) list \<Rightarrow> 'w LBA \<Rightarrow> 'w LBA" where
  "evictEntries onEvict [] l = l"
| "evictEntries onEvict ((index, shard) # es) l = evictEntries onEvict es (onEvict index shard l)"

definition cacheClear ::
  "(int \<Rightarrow> addr option \<Rightarrow> 'w LBA \<Rightarrow> 'w LBA) \<Rightarrow> bool \<Rightarrow> 'w LBA \<Rightarrow> 'w LBA" where
  "cacheClear onEvict evict l0 =
     (let l = logEvent (EvCacheClear evict) l0;
          l1 = (if evict then evictEntries onEvict (entries (cache l)) l else l)
      in l1\<lparr>cache := (cache l1)\<lparr>entries := []\<rparr>\<rparr>)"

subsection \<open>The LBA\<close>

definition lbaCacheGet :: "int \<Rightarrow> 'w LBA \<Rightarrow> (addr option \<times> bool) \<times> 'w LBA" where
  "lbaCacheGet index l =
     (case cacheGet (cache l) index of
        (r, c) \<Rightarrow> (r, logEvent (EvCacheGet index) (l\<lparr>cache := c\<rparr>)))"

text \<open>
  \<^verbatim>\<open>make([]sync.Mutex, n)\<close>. The Go runtime (\<^verbatim>\<open>makeslice\<close>) panics with "len out of range"
  when \<open>n\<close> is negative or when \<open>n\<close> elements take more than the runtime can address
  (\<^verbatim>\<open>maxAlloc\<close>), and the allocation itself dies with "out of memory" when the machine has
  no room for them. Both limits belong to the platform and not to the repository, so
  they are parameters of the model, counted in mutexes: \<open>maxSliceLen\<close> is the longest
  \<^verbatim>\<open>[]sync.Mutex\<close> that \<^verbatim>\<open>makeslice\<close> accepts, \<open>availableLen\<close> the longest the memory can hold.
\<close>

record goRuntime =
  maxSliceLen :: int
  availableLen :: int

definition makeMutexes :: "goRuntime \<Rightarrow> int \<Rightarrow> Mutex list outcome" where
  "makeMutexes rt n =
     (if n < 0 \<or> maxSliceLen rt < n then Panic MakeSliceLenOutOfRange
      else if availableLen rt < n then Panic OutOfMemory
      else Ret (replicate (nat n) Mutex))"

text \<open>
  \<open>NewLBA\<close>, with the runtime it runs on as its first argument. A panic of \<^verbatim>\<open>make\<close> ends
  the call before the cache is built.
\<close>

definition NewLBA ::
  "goRuntime \<Rightarrow> string \<Rightarrow> int \<Rightarrow> int \<Rightarrow> 'w MetaRedisProvider option \<Rightarrow> 'w
     \<Rightarrow> ('w LBA option \<times> error option) outcome" where
  "NewLBA rt vid blockCount cacheLimitInBytes prov w =
     (case prov of
        None \<Rightarrow> Ret (None, Some ErrNilProvider)
      | Some p \<Rightarrow>
          (let muxCount0 = blockCount sdiv NumberOfRecordsPerLBAShard;
               muxCount = (if blockCount smod NumberOfRecordsPerLBAShard > 0
                           then muxCount0 + 1 else muxCount0)
           in case makeMutexes rt muxCount of
                Panic x \<Rightarrow> Panic x
              | Ret mux \<Rightarrow>
                  (case newShardCache cacheLimitInBytes of
                     (c, err) \<Rightarrow>
                       Ret (Some \<lparr>cache = c, shardMux = mux,
                                  provider = p, volumeID = vid,
                                  heap = [], world = w, trace = []\<rparr>, err))))"

definition deleteShardFromExternalStorage :: "int \<Rightarrow> 'w LBA \<Rightarrow> error option \<times> 'w LBA" where
  "deleteShardFromExternalStorage index l =
     (case acquire l of
        (Inl e, l1) \<Rightarrow> (Some e, l1)
      | (Inr c, l1) \<Rightarrow>
          (case doCmd c ''HDEL'' [ArgString (volumeID l), ArgInt index] l1 of
             ((rep, err), l2) \<Rightarrow> (err, closeConn c l2)))"

definition storeShardInExternalStorage :: "int \<Rightarrow> addr \<Rightarrow> 'w LBA \<Rightarrow> error option \<times> 'w LBA" where
  "storeShardInExternalStorage index a l =
     (if \<not> shardDirty (heap l) (Some a) then (None, l)
      else
        (case shardWrite (heap l ! a) [] of
           (buffer, Some e) \<Rightarrow> (Some (ErrSerializeEvicted index e), l)
         | (buffer, None) \<Rightarrow>
             (case acquire l of
                (Inl e, l1) \<Rightarrow> (Some e, l1)
              | (Inr c, l1) \<Rightarrow>
                  (case doCmd c ''HSET'' [ArgString (volumeID l), ArgInt index, ArgBytes buffer] l1 of
                     ((rep, err), l2) \<Rightarrow>
                       (err,
                        closeConn c
                          (if err \<noteq> None
                           then l2\<lparr>heap := (heap l2)[a := shardUnsetDirty (heap l2 ! a)]\<rparr>
                           else l2))))))"

definition onCacheEviction :: "int \<Rightarrow> addr option \<Rightarrow> 'w LBA \<Rightarrow> 'w LBA" where
  "onCacheEviction index shard l =
     (if \<not> shardDirty (heap l) shard then l
      else
        (case (case shard of
                 Some a \<Rightarrow> storeShardInExternalStorage index a l
               | None \<Rightarrow> deleteShardFromExternalStorage index l) of
           (None, l1) \<Rightarrow> l1
         | (Some e, l1) \<Rightarrow> logEvent (EvLog index e) l1))"

definition getShardFromExternalStorage ::
  "int \<Rightarrow> 'w LBA \<Rightarrow> (addr option \<times> error option) \<times> 'w LBA" where
  "getShardFromExternalStorage index l =
     (case acquire l of
        (Inl e, l1) \<Rightarrow> ((None, Some e), l1)
      | (Inr c, l1) \<Rightarrow>
          (case doCmd c ''HGET'' [ArgString (volumeID l), ArgInt index] l1 of
             ((rep, err), l2) \<Rightarrow>
               if err \<noteq> None \<or> rep = ReplyNil then ((None, err), closeConn c l2)
               else
                 (case redisBytes rep err of
                    (shardBytes, Some e) \<Rightarrow> ((None, Some e), closeConn c l2)
                  | (shardBytes, None) \<Rightarrow>
                      (case shardFromBytes HashSize shardBytes of
                         Inl e \<Rightarrow> ((None, Some e), closeConn c l2)
                       | Inr s \<Rightarrow>
                           (case alloc s l2 of
                              (a, l3) \<Rightarrow> ((Some a, None), closeConn c l3))))))"

definition getShard :: "int \<Rightarrow> 'w LBA \<Rightarrow> (addr option \<times> error option) \<times> 'w LBA" where
  "getShard index l =
     (case lbaCacheGet index l of
        ((shard, ok), l1) \<Rightarrow>
          if \<not> ok then
            (case getShardFromExternalStorage index l1 of
               ((shard, err), l2) \<Rightarrow>
                 if err \<noteq> None then ((shard, err), l2)
                 else if shard \<noteq> None
                 then ((shard, err), cacheAdd onCacheEviction index shard l2)
                 else ((shard, err), l2))
          else ((shard, None), l1))"

text \<open>
  \<^verbatim>\<open>Set\<close>: the closure runs between \<^verbatim>\<open>Lock\<close> and the deferred \<^verbatim>\<open>Unlock\<close>; the update of
  the hash follows the closure. Indexing \<^verbatim>\<open>lba.shardMux\<close> out of range panics.
\<close>

definition lbaSet :: "int \<Rightarrow> Hash \<Rightarrow> 'w LBA \<Rightarrow> (error option \<times> 'w LBA) outcome" where
  "lbaSet blockIndex h l =
     (let shardIndex = blockIndex sdiv NumberOfRecordsPerLBAShard in
      if shardIndex < 0 \<or> int (length (shardMux l)) \<le> shardIndex then Panic IndexOutOfRange
      else
        (case getShard shardIndex (logEvent (EvLock shardIndex) l) of
           ((shard0, err0), l1) \<Rightarrow>
             (case (if err0 \<noteq> None then ((shard0, err0), l1)
                    else if shard0 = None
                    then (case alloc (newShard HashSize) l1 of
                            (a, l2) \<Rightarrow>
                              ((Some a, err0), cacheAdd onCacheEviction shardIndex (Some a) l2))
                    else ((shard0, err0), l1)) of
                ((shard, err), l3) \<Rightarrow>
                  (let l4 = logEvent (EvUnlock shardIndex) l3 in
                   if err \<noteq> None then Ret (err, l4)
                   else
                     (case shard of
                        None \<Rightarrow> Panic NilDereference
                      | Some a \<Rightarrow>
                          (let hashIndex = blockIndex smod NumberOfRecordsPerLBAShard in
                           case shardSet (heap l4 ! a) hashIndex h of
                             Panic p \<Rightarrow> Panic p
                           | Ret s \<Rightarrow>
                               Ret (None,
                                    (logEvent (EvShardSet a hashIndex h) l4)
                                      \<lparr>heap := (heap l4)[a := s]\<rparr>)))))))"

definition lbaDelete :: "int \<Rightarrow> 'w LBA \<Rightarrow> (error option \<times> 'w LBA) outcome" where
  "lbaDelete blockIndex l = lbaSet blockIndex [] l"

definition lbaGet :: "int \<Rightarrow> 'w LBA \<Rightarrow> ((Hash \<times> error option) \<times> 'w LBA) outcome" where
  "lbaGet blockIndex l =
     (let shardIndex = blockIndex sdiv NumberOfRecordsPerLBAShard in
      if shardIndex < 0 \<or> int (length (shardMux l)) \<le> shardIndex then Panic IndexOutOfRange
      else
        (case getShard shardIndex (logEvent (EvLock shardIndex) l) of
           ((shard, err), l1) \<Rightarrow>
             (let l2 = logEvent (EvUnlock shardIndex) l1 in
              if err \<noteq> None \<or> shard = None then Ret (([], err), l2)
              else
                (case shard of
                   None \<Rightarrow> Panic NilDereference
                 | Some a \<Rightarrow>
                     (let hashIndex = blockIndex smod NumberOfRecordsPerLBAShard in
                      case shardGet (heap l2 ! a) hashIndex of
                        Panic p \<Rightarrow> Panic p
                      | Ret x \<Rightarrow> Ret ((x, err), logEvent (EvShardGet a hashIndex) l2))))))"

text \<open>The callback that \<^verbatim>\<open>storeCacheInExternalStorage\<close> hands to \<^verbatim>\<open>Serialize\<close>.\<close>

definition serializeCallback ::
  "conn \<Rightarrow> string \<Rightarrow> int \<Rightarrow> bytes option \<Rightarrow> 'w LBA \<Rightarrow> error option \<times> 'w LBA" where
  "serializeCallback c vid index bs l =
     (case bs of
        Some b \<Rightarrow> sendCmd c ''HSET'' [ArgString vid, ArgInt index, ArgBytes b] l
      | None \<Rightarrow> sendCmd c ''HDEL'' [ArgString vid, ArgInt index] l)"

definition storeCacheInExternalStorage :: "'w LBA \<Rightarrow> error option \<times> 'w LBA" where
  "storeCacheInExternalStorage l =
     (case acquire l of
        (Inl e, l1) \<Rightarrow> (Some e, l1)
      | (Inr c, l1) \<Rightarrow>
          (case sendCmd c ''MULTI'' [] l1 of
             (Some e, l2) \<Rightarrow> (Some e, closeConn c l2)
           | (None, l2) \<Rightarrow>
               (let l3 = cacheSerialize (serializeCallback c (volumeID l)) l2 in
                case doCmd c ''EXEC'' [] l3 of
                  ((rep, err), l4) \<Rightarrow>
                    (err,
                     closeConn c
                       (if err \<noteq> None then cacheClear onCacheEviction False l4 else l4)))))"

definition lbaFlush :: "'w LBA \<Rightarrow> error option \<times> 'w LBA" where
  "lbaFlush l = storeCacheInExternalStorage l"

subsection \<open>Observing a trace\<close>

text \<open>
  An event is quiet when it is neither a mutex operation nor an access to the hashes of
  a shard.
\<close>

fun quiet :: "event \<Rightarrow> bool" where
  "quiet (EvLock i) = False"
| "quiet (EvUnlock i) = False"
| "quiet (EvShardSet a i h) = False"
| "quiet (EvShardGet a i) = False"
| "quiet e = True"

fun isExec :: "event \<Rightarrow> bool" where
  "isExec (EvDo c name args rep err) = (name = ''EXEC'')"
| "isExec e = False"

fun isCommand :: "event \<Rightarrow> bool" where
  "isCommand (EvDo c name args rep err) = True"
| "isCommand (EvSend c name args err) = True"
| "isCommand e = False"

text \<open>
  \<open>quietStep l l'\<close>: the trace of \<open>l'\<close> extends the trace of \<open>l\<close> by quiet events only.
\<close>

definition quietStep :: "'w LBA \<Rightarrow> 'w LBA \<Rightarrow> bool" where
  "quietStep l l' =
     (take (length (trace l)) (trace l') = trace l
      \<and> list_all quiet (drop (length (trace l)) (trace l')))"

text \<open>
  The lock discipline "every cache lookup and every shard mutation is performed under
  this lock", read on a trace: \<open>held\<close> lists the shard locks held so far.
\<close>

fun underLock :: "int list \<Rightarrow> event list \<Rightarrow> bool" where
  "underLock held [] = True"
| "underLock held (EvLock i # es) = underLock (i # held) es"
| "underLock held (EvUnlock i # es) = underLock (remove1 i held) es"
| "underLock held (EvCacheGet i # es) = (List.member held i \<and> underLock held es)"
| "underLock held (EvShardSet a i h # es) = (held \<noteq> [] \<and> underLock held es)"
| "underLock held (e # es) = underLock held es"

text \<open>
  What \<open>Serialize\<close> hands to its callback for a list of entries (the dirty ones, with
  their bytes), and the event of the \<^verbatim>\<open>Send\<close> the callback of the flush answers with.
\<close>

definition dirtyEntries :: "shard list \<Rightarrow> (int \<times> addr option) list \<Rightarrow> (int \<times> bytes option) list" where
  "dirtyEntries hp es =
     map (\<lambda>(i, s). (i, serializedBytes hp s)) (filter (\<lambda>(i, s). shardDirty hp s) es)"

fun sendEvent :: "conn \<Rightarrow> string \<Rightarrow> int \<times> bytes option \<Rightarrow> error option \<Rightarrow> event" where
  "sendEvent c vid (index, Some b) err = EvSend c ''HSET'' [ArgString vid, ArgInt index, ArgBytes b] err"
| "sendEvent c vid (index, None) err = EvSend c ''HDEL'' [ArgString vid, ArgInt index] err"

subsection \<open>Concrete providers and states\<close>

text \<open>
  A provider without state: every acquisition answers \<open>r\<close>, every \<^verbatim>\<open>Do\<close> of a command
  answers by the command's name, and so does every \<^verbatim>\<open>Send\<close>.
\<close>

definition stubProvider ::
  "(error + conn) \<Rightarrow> (string \<Rightarrow> reply \<times> error option) \<Rightarrow> (string \<Rightarrow> error option)
     \<Rightarrow> unit MetaRedisProvider" where
  "stubProvider r d s =
     \<lparr>MetaRedisConnection = (\<lambda>w. (r, w)),
      connDo = (\<lambda>c name args w. (d name, w)),
      connSend = (\<lambda>c name args w. (s name, w)),
      connClose = (\<lambda>c w. w)\<rparr>"

text \<open>A server that holds no shard and accepts every command.\<close>

definition okProvider :: "unit MetaRedisProvider" where
  "okProvider =
     stubProvider (Inr 7)
       (\<lambda>name. (if name = ''HGET'' then ReplyNil else ReplyString ''OK'', None))
       (\<lambda>name. None)"

text \<open>The same server, on which the command \<open>bad\<close> fails when it is executed with \<^verbatim>\<open>Do\<close>.\<close>

definition failingProvider :: "string \<Rightarrow> unit MetaRedisProvider" where
  "failingProvider bad =
     stubProvider (Inr 7)
       (\<lambda>name. if name = bad then (ReplyNil, Some (ErrExternal ''connection reset''))
               else (if name = ''HGET'' then ReplyNil else ReplyString ''OK'', None))
       (\<lambda>name. None)"

text \<open>The same server, answering \<^verbatim>\<open>EXEC\<close> with a nil reply and no error.\<close>

definition nilExecProvider :: "unit MetaRedisProvider" where
  "nilExecProvider =
     stubProvider (Inr 7)
       (\<lambda>name. (if name = ''HGET'' \<or> name = ''EXEC'' then ReplyNil else ReplyString ''OK'', None))
       (\<lambda>name. None)"

text \<open>A provider that cannot supply a connection.\<close>

definition downProvider :: "unit MetaRedisProvider" where
  "downProvider =
     stubProvider (Inl (ErrExternal ''unavailable''))
       (\<lambda>name. (ReplyNil, Some (ErrExternal ''unavailable'')))
       (\<lambda>name. Some (ErrExternal ''unavailable''))"

text \<open>
  A 64-bit Linux machine: \<^verbatim>\<open>maxAlloc\<close> is \<open>2^48\<close> bytes and a \<^verbatim>\<open>sync.Mutex\<close> takes 8, so
  \<^verbatim>\<open>makeslice\<close> accepts up to \<open>2^45\<close> mutexes; the memory of this one holds \<open>2^31\<close>.
\<close>

definition linuxAmd64 :: goRuntime where
  "linuxAmd64 = \<lparr>maxSliceLen = 2 ^ 45, availableLen = 2 ^ 31\<rparr>"

text \<open>
  The LBA that \<^verbatim>\<open>NewLBA("vol", 256, 4096, p)\<close> returns: two mutexes and a cache of one
  shard; and the same LBA holding one dirty shard for shard index 0.
\<close>

definition freshLBA :: "unit MetaRedisProvider \<Rightarrow> unit LBA" where
  "freshLBA p =
     \<lparr>cache = \<lparr>entries = [], capacity = 1\<rparr>, shardMux = [Mutex, Mutex],
      provider = p, volumeID = ''vol'', heap = [], world = (), trace = []\<rparr>"

definition dirtyLBA :: "unit MetaRedisProvider \<Rightarrow> unit LBA" where
  "dirtyLBA p =
     \<lparr>cache = \<lparr>entries = [(0, Some 0)], capacity = 1\<rparr>, shardMux = [Mutex, Mutex],
      provider = p, volumeID = ''vol'',
      heap = [\<lparr>hashes = (hashes (newShard HashSize))[5 := replicate HashSize 1], dirty = True\<rparr>],
      world = (), trace = []\<rparr>"

section \<open>Properties\<close>

subsection \<open>Serialization of a shard\<close>

lemma writeHashes_concat: "writeHashes hs sink = sink @ concat hs"
  by (induction hs arbitrary: sink) simp_all

lemma length_concat_fixed:
  "list_all (\<lambda>x. length x = h) hs \<Longrightarrow> length (concat hs) = length hs * h"
  by (induction hs) simp_all

lemma readHashes_concat:
  "list_all (\<lambda>x. length x = h) hs \<Longrightarrow> readHashes (length hs) h (concat hs) = hs"
  by (induction hs) simp_all

text \<open>
  C8. For every shard of the data model (R slots of H bytes each), \<open>Write\<close> into an empty
  buffer returns no error and produces exactly the concatenation of the R hashes, which
  is R*H bytes long, and \<open>shardFromBytes\<close> of these bytes succeeds with a shard that has
  the same records and is not dirty: the round trip is the identity up to the dirty bit.
\<close>

theorem shard_roundtrip:
  assumes "validShard h s"
  shows "shardWrite s [] = (concat (hashes s), None)
       \<and> length (concat (hashes s)) = nat NumberOfRecordsPerLBAShard * h
       \<and> shardFromBytes h (fst (shardWrite s [])) = Inr (s\<lparr>dirty := False\<rparr>)
       \<and> (\<exists>t. shardFromBytes h (fst (shardWrite s [])) = Inr t \<and> hashes t = hashes s \<and> \<not> dirty t)"
proof -
  from assms have len: "length (hashes s) = nat NumberOfRecordsPerLBAShard"
    and all: "list_all (\<lambda>x. length x = h) (hashes s)"
    by (simp_all add: validShard_def)
  have w: "shardWrite s [] = (concat (hashes s), None)"
    by (simp add: shardWrite_def writeHashes_concat)
  have l: "length (concat (hashes s)) = nat NumberOfRecordsPerLBAShard * h"
    using length_concat_fixed [OF all] len by simp
  have "readHashes (nat NumberOfRecordsPerLBAShard) h (concat (hashes s)) = hashes s"
    using readHashes_concat [OF all] len by simp
  then have r: "shardFromBytes h (fst (shardWrite s [])) = Inr (s\<lparr>dirty := False\<rparr>)"
    using l by (simp add: shardFromBytes_def w)
  from w l r show ?thesis by simp
qed

theorem shard_roundtrip_witness:
  "validShard 2 \<lparr>hashes = replicate 128 [1, 2], dirty = True\<rparr>
   \<and> shardFromBytes 2 (fst (shardWrite \<lparr>hashes = replicate 128 [1, 2], dirty = True\<rparr> []))
       = Inr \<lparr>hashes = replicate 128 [1, 2], dirty = False\<rparr>"
proof -
  have v: "validShard 2 \<lparr>hashes = replicate 128 [1, 2], dirty = True\<rparr>"
    by (simp add: validShard_def NumberOfRecordsPerLBAShard_def list_all_iff)
  from shard_roundtrip [OF v]
  have "shardFromBytes 2 (fst (shardWrite \<lparr>hashes = replicate 128 [1, 2], dirty = True\<rparr> []))
       = Inr (\<lparr>hashes = replicate 128 [1, 2], dirty = True\<rparr>\<lparr>dirty := False\<rparr>)"
    by blast
  with v show ?thesis by simp
qed

subsection \<open>Construction\<close>

lemma go_div_nonneg: "0 \<le> (b::int) \<Longrightarrow> b sdiv 128 = b div 128 \<and> b smod 128 = b mod 128"
  by (auto simp add: signed_divide_int_def signed_modulo_int_def sgn_if)

lemma go_div_neg: "(b::int) < 0 \<Longrightarrow> b sdiv 128 = - (- b div 128) \<and> b smod 128 = - (- b mod 128)"
  by (simp add: signed_divide_int_def signed_modulo_int_def)

text \<open>
  Go's truncating quotient, incremented when the remainder is positive, is the ceiling
  of the exact quotient, for every dividend (for a negative one truncation rounds up
  already and the remainder is never positive).
\<close>

lemma muxCount_ceiling:
  "(if 0 < (b::int) smod 128 then b sdiv 128 + 1 else b sdiv 128) = \<lceil>real_of_int b / 128\<rceil>"
proof -
  have c: "\<lceil>real_of_int b / 128\<rceil> = - (- b div 128)"
    using ceiling_divide_eq_div [of b 128] by simp
  show ?thesis
  proof (cases "0 \<le> b")
    case True
    then have "b sdiv 128 = b div 128" "b smod 128 = b mod 128"
      using go_div_nonneg by simp_all
    moreover have "- (- b div 128) = (if 0 < b mod 128 then b div 128 + 1 else b div 128)"
      by (simp add: zdiv_zminus1_eq_if less_le)
    ultimately show ?thesis unfolding c by simp
  next
    case False
    then have "b sdiv 128 = - (- b div 128)" "b smod 128 = - (- b mod 128)"
      using go_div_neg [of b] by simp_all
    moreover have "0 \<le> - b mod 128"
      by simp
    ultimately show ?thesis unfolding c by simp
  qed
qed

lemma NewLBA_with_provider:
  "NewLBA rt vid blockCount cacheLimitInBytes (Some p) w =
     (case makeMutexes rt \<lceil>real_of_int blockCount / 128\<rceil> of
        Panic x \<Rightarrow> Panic x
      | Ret mux \<Rightarrow>
          Ret (Some \<lparr>cache = fst (newShardCache cacheLimitInBytes), shardMux = mux,
                     provider = p, volumeID = vid, heap = [], world = w, trace = []\<rparr>, None))"
proof -
  have "(if 0 < blockCount smod NumberOfRecordsPerLBAShard
         then blockCount sdiv NumberOfRecordsPerLBAShard + 1
         else blockCount sdiv NumberOfRecordsPerLBAShard) = \<lceil>real_of_int blockCount / 128\<rceil>"
    unfolding NumberOfRecordsPerLBAShard_def by (rule muxCount_ceiling)
  then show ?thesis
    by (simp add: NewLBA_def Let_def newShardCache_def split: outcome.splits)
qed

text \<open>
  C9. \<open>NewLBA\<close> without a provider returns the error "NewLBA requires a non-nil
  MetaRedisProvider" and no LBA, whatever the block count. With a provider it never
  returns that error: it asks \<^verbatim>\<open>make\<close> for exactly \<open>\<lceil>blockCount / 128\<rceil>\<close> mutexes, panics
  when that number is negative or beyond what the runtime can allocate, and otherwise
  returns no error and an LBA whose mutex array has exactly that many elements.
\<close>

theorem NewLBA_mutexes:
  "NewLBA rt vid blockCount cacheLimitInBytes None w = Ret (None, Some ErrNilProvider)
   \<and> (if \<lceil>real_of_int blockCount / 128\<rceil> < 0 \<or> maxSliceLen rt < \<lceil>real_of_int blockCount / 128\<rceil>
      then NewLBA rt vid blockCount cacheLimitInBytes (Some p) w = Panic MakeSliceLenOutOfRange
      else if availableLen rt < \<lceil>real_of_int blockCount / 128\<rceil>
      then NewLBA rt vid blockCount cacheLimitInBytes (Some p) w = Panic OutOfMemory
      else (\<exists>l. NewLBA rt vid blockCount cacheLimitInBytes (Some p) w = Ret (Some l, None)
              \<and> length (shardMux l) = nat \<lceil>real_of_int blockCount / 128\<rceil>
              \<and> provider l = p \<and> volumeID l = vid))"
proof -
  have absent: "NewLBA rt vid blockCount cacheLimitInBytes None w = Ret (None, Some ErrNilProvider)"
    by (simp add: NewLBA_def)
  have present: "(if \<lceil>real_of_int blockCount / 128\<rceil> < 0 \<or> maxSliceLen rt < \<lceil>real_of_int blockCount / 128\<rceil>
      then NewLBA rt vid blockCount cacheLimitInBytes (Some p) w = Panic MakeSliceLenOutOfRange
      else if availableLen rt < \<lceil>real_of_int blockCount / 128\<rceil>
      then NewLBA rt vid blockCount cacheLimitInBytes (Some p) w = Panic OutOfMemory
      else (\<exists>l. NewLBA rt vid blockCount cacheLimitInBytes (Some p) w = Ret (Some l, None)
              \<and> length (shardMux l) = nat \<lceil>real_of_int blockCount / 128\<rceil>
              \<and> provider l = p \<and> volumeID l = vid))"
    unfolding NewLBA_with_provider by (simp add: makeMutexes_def)
  from absent present show ?thesis
    by (rule conjI)
qed

theorem NewLBA_mutexes_witness:
  "NewLBA linuxAmd64 ''vol'' 256 4096 (None :: unit MetaRedisProvider option) ()
     = Ret (None, Some ErrNilProvider)
   \<and> (\<exists>l. NewLBA linuxAmd64 ''vol'' 256 4096 (Some okProvider) () = Ret (Some l, None)
          \<and> length (shardMux l) = 2)"
proof -
  have c: "\<lceil>real_of_int 256 / 128\<rceil> = 2" by simp
  have r: "\<not> ((2::int) < 0 \<or> maxSliceLen linuxAmd64 < 2)" "\<not> availableLen linuxAmd64 < 2"
    by (simp_all add: linuxAmd64_def)
  from NewLBA_mutexes [of linuxAmd64 "''vol''" 256 4096 "()" okProvider] show ?thesis
    unfolding c using r by auto
qed

theorem NewLBA_mutexes_counterexample:
  "NewLBA linuxAmd64 ''vol'' 9223372036854775807 4096 (Some okProvider) ()
     = Panic MakeSliceLenOutOfRange
   \<and> NewLBA linuxAmd64 ''vol'' (- 128) 4096 (Some okProvider) () = Panic MakeSliceLenOutOfRange"
  by (simp add: NewLBA_def makeMutexes_def linuxAmd64_def NumberOfRecordsPerLBAShard_def
      Let_def signed_divide_int_def signed_modulo_int_def)

subsection \<open>Lookups of an absent shard\<close>

lemma logEvent_fields [simp]:
  "trace (logEvent e l) = trace l @ [e]"
  "cache (logEvent e l) = cache l"
  "heap (logEvent e l) = heap l"
  "world (logEvent e l) = world l"
  "provider (logEvent e l) = provider l"
  "volumeID (logEvent e l) = volumeID l"
  "shardMux (logEvent e l) = shardMux l"
  by (simp_all add: logEvent_def)

lemma map_of_filter_key:
  "map_of (filter (\<lambda>e. fst e \<noteq> k) xs) = (map_of xs)(k := None)"
  by (induction xs) auto

lemma cacheGet_contents:
  "map_of (entries (snd (cacheGet c index))) = map_of (entries c)"
  by (auto simp add: cacheGet_def map_of_filter_key map_upd_triv split: option.splits)

lemma cacheGet_miss:
  assumes "\<not> snd (fst (cacheGet c index))"
  shows "fst (cacheGet c index) = (None, False)"
    and "map_of (entries (snd (cacheGet c index))) = map_of (entries c)"
    and "capacity (snd (cacheGet c index)) = capacity c"
    and "map_of (entries c) index = None \<or> map_of (entries c) index = Some None"
  using assms cacheGet_contents [of c index]
  by (auto simp add: cacheGet_def split: option.splits)

lemma getShard_absent:
  assumes miss: "\<not> snd (fst (cacheGet (cache l) index))"
    and conn: "MetaRedisConnection (provider l) (world l) = (Inr c, w1)"
    and absent: "connDo (provider l) c ''HGET'' [ArgString (volumeID l), ArgInt index] w1
                   = ((ReplyNil, None), w2)"
  shows "getShard index l =
           ((None, None),
            l\<lparr>cache := snd (cacheGet (cache l) index),
              world := connClose (provider l) c w2,
              trace := trace l @ [EvCacheGet index, EvConnect (Inr c),
                                  EvDo c ''HGET'' [ArgString (volumeID l), ArgInt index] ReplyNil None,
                                  EvClose c]\<rparr>)"
proof -
  obtain c' where g: "cacheGet (cache l) index = ((None, False), c')"
    using cacheGet_miss(1) [OF miss] by (cases "cacheGet (cache l) index") auto
  show ?thesis
    by (simp add: getShard_def lbaCacheGet_def g getShardFromExternalStorage_def acquire_def
        doCmd_def closeConn_def conn absent logEvent_def)
qed

subsection \<open>Which events the parts of a call add to the trace\<close>

lemma quietStepI: "trace l' = trace l @ evs \<Longrightarrow> list_all quiet evs \<Longrightarrow> quietStep l l'"
  by (simp add: quietStep_def)

lemma quietStepD: "quietStep l l' \<Longrightarrow> \<exists>evs. trace l' = trace l @ evs \<and> list_all quiet evs"
  unfolding quietStep_def by (metis append_take_drop_id)

lemma quietStep_refl: "quietStep l l"
  by (simp add: quietStep_def)

lemma quietStep_trans: "quietStep l l1 \<Longrightarrow> quietStep l1 l2 \<Longrightarrow> quietStep l l2"
proof -
  assume "quietStep l l1" "quietStep l1 l2"
  then obtain e1 e2 where "trace l1 = trace l @ e1" "list_all quiet e1"
    "trace l2 = trace l1 @ e2" "list_all quiet e2"
    by (blast dest: quietStepD)
  then show ?thesis
    by (intro quietStepI [of _ _ "e1 @ e2"]) simp_all
qed

lemma quietStep_logEvent: "quiet e \<Longrightarrow> quietStep l (logEvent e l)"
  by (rule quietStepI [of _ _ "[e]"]) simp_all

lemma quietStep_acquire: "acquire l = (r, l') \<Longrightarrow> quietStep l l'"
  by (auto simp add: acquire_def split: prod.splits intro!: quietStepI [of _ _ "[EvConnect r]"])

lemma quietStep_doCmd: "doCmd c name args l = (r, l') \<Longrightarrow> quietStep l l'"
  by (auto simp add: doCmd_def split: prod.splits intro!: quietStepI [of _ _ "[EvDo c name args (fst r) (snd r)]"])

lemma quietStep_sendCmd: "sendCmd c name args l = (r, l') \<Longrightarrow> quietStep l l'"
  by (auto simp add: sendCmd_def split: prod.splits intro!: quietStepI [of _ _ "[EvSend c name args r]"])

lemma quietStep_closeConn: "quietStep l (closeConn c l)"
  by (auto simp add: closeConn_def intro!: quietStepI [of _ _ "[EvClose c]"])

lemma quietStep_closeConn': "quietStep l l1 \<Longrightarrow> quietStep l (closeConn c l1)"
  by (blast intro: quietStep_trans quietStep_closeConn)

lemma quietStep_logEvent': "quiet e \<Longrightarrow> quietStep l l1 \<Longrightarrow> quietStep l (logEvent e l1)"
  by (blast intro: quietStep_trans quietStep_logEvent)

lemma quietStep_deleteShard:
  "deleteShardFromExternalStorage index l = (r, l') \<Longrightarrow> quietStep l l'"
  unfolding deleteShardFromExternalStorage_def
  by (auto split: prod.splits sum.splits
      dest!: quietStep_acquire quietStep_doCmd
      intro: quietStep_trans quietStep_closeConn')

lemma quietStep_heap_update: "quietStep l l1 \<Longrightarrow> quietStep l (l1\<lparr>heap := h\<rparr>)"
  by (simp add: quietStep_def)

lemma quietStep_cache_update: "quietStep l l1 \<Longrightarrow> quietStep l (l1\<lparr>cache := h\<rparr>)"
  by (simp add: quietStep_def)

lemma quietStep_storeShard:
  "storeShardInExternalStorage index a l = (r, l') \<Longrightarrow> quietStep l l'"
  unfolding storeShardInExternalStorage_def
  by (auto split: prod.splits sum.splits option.splits if_splits
      dest!: quietStep_acquire quietStep_doCmd
      intro: quietStep_trans quietStep_closeConn' quietStep_heap_update quietStep_refl)

lemma quietStep_onCacheEviction: "quietStep l (onCacheEviction index shard l)"
  unfolding onCacheEviction_def
  by (auto split: prod.splits option.splits
      dest!: quietStep_storeShard quietStep_deleteShard
      intro: quietStep_logEvent' quietStep_refl)

lemma quietStep_cacheAdd: "quietStep l (cacheAdd onCacheEviction index shard l)"
proof -
  have a: "quietStep l (logEvent (EvCacheAdd index shard) l)"
    by (simp add: quietStep_logEvent)
  have b: "\<And>l1 i s. quietStep l l1 \<Longrightarrow> quietStep l (onCacheEviction i s l1)"
    by (blast intro: quietStep_trans quietStep_onCacheEviction)
  show ?thesis
    unfolding cacheAdd_def Let_def
    by (auto split: prod.splits intro!: quietStep_cache_update a b)
qed

lemma quietStep_getShardFromExternalStorage:
  "getShardFromExternalStorage index l = (r, l') \<Longrightarrow> quietStep l l'"
  unfolding getShardFromExternalStorage_def alloc_def
  by (auto split: prod.splits sum.splits option.splits if_splits
      dest!: quietStep_acquire quietStep_doCmd
      intro: quietStep_trans quietStep_closeConn' quietStep_heap_update quietStep_refl)

lemma acquire_result:
  assumes "acquire l = (r, l')"
  shows "r = fst (MetaRedisConnection (provider l) (world l))"
    and "trace l' = trace l @ [EvConnect r]"
    and "world l' = snd (MetaRedisConnection (provider l) (world l))"
    and "provider l' = provider l" and "volumeID l' = volumeID l"
    and "heap l' = heap l" and "cache l' = cache l"
  using assms by (auto simp add: acquire_def split: prod.splits)

lemma doCmd_result:
  assumes "doCmd c name args l = (r, l')"
  shows "r = fst (connDo (provider l) c name args (world l))"
    and "trace l' = trace l @ [EvDo c name args (fst r) (snd r)]"
    and "world l' = snd (connDo (provider l) c name args (world l))"
    and "provider l' = provider l" and "volumeID l' = volumeID l"
    and "heap l' = heap l" and "cache l' = cache l"
  using assms by (auto simp add: doCmd_def split: prod.splits)

lemma sendCmd_result:
  assumes "sendCmd c name args l = (r, l')"
  shows "r = fst (connSend (provider l) c name args (world l))"
    and "trace l' = trace l @ [EvSend c name args r]"
    and "world l' = snd (connSend (provider l) c name args (world l))"
    and "provider l' = provider l" and "volumeID l' = volumeID l"
    and "heap l' = heap l" and "cache l' = cache l"
  using assms by (auto simp add: sendCmd_def split: prod.splits)

lemma closeConn_fields [simp]:
  "trace (closeConn c l) = trace l @ [EvClose c]"
  "cache (closeConn c l) = cache l"
  "heap (closeConn c l) = heap l"
  "provider (closeConn c l) = provider l"
  "volumeID (closeConn c l) = volumeID l"
  "shardMux (closeConn c l) = shardMux l"
  by (simp_all add: closeConn_def)

lemma lbaCacheGet_result:
  assumes "lbaCacheGet index l = (r, l')"
  shows "r = fst (cacheGet (cache l) index)"
    and "trace l' = trace l @ [EvCacheGet index]"
    and "cache l' = snd (cacheGet (cache l) index)"
    and "world l' = world l" and "provider l' = provider l" and "volumeID l' = volumeID l"
    and "heap l' = heap l"
  using assms by (auto simp add: lbaCacheGet_def split: prod.splits)

lemma getShard_after_lookup:
  assumes "getShard index l = (r, l')"
  shows "quietStep (snd (lbaCacheGet index l)) l'"
proof -
  obtain r1 l1 where g: "lbaCacheGet index l = (r1, l1)"
    by (cases "lbaCacheGet index l")
  obtain r2 l2 where e: "getShardFromExternalStorage index l1 = (r2, l2)"
    by (cases "getShardFromExternalStorage index l1")
  have q: "quietStep l1 l2"
    using quietStep_getShardFromExternalStorage [OF e] .
  have "quietStep l1 (cacheAdd onCacheEviction index (fst r2) l2)"
    using q quietStep_cacheAdd by (rule quietStep_trans)
  with q assms show ?thesis
    by (auto simp add: getShard_def g e quietStep_refl split: prod.splits if_splits)
qed

lemma getShard_trace:
  assumes "getShard index l = (r, l')"
  shows "\<exists>evs. trace l' = trace l @ EvCacheGet index # evs \<and> list_all quiet evs"
proof -
  obtain r1 l1 where g: "lbaCacheGet index l = (r1, l1)"
    by (cases "lbaCacheGet index l")
  from getShard_after_lookup [OF assms] g have "quietStep l1 l'"
    by simp
  then obtain evs where "trace l' = trace l1 @ evs" "list_all quiet evs"
    by (blast dest: quietStepD)
  with lbaCacheGet_result(2) [OF g] show ?thesis
    by simp
qed




text \<open>
  C4. When the shard of a block index is in range of the mutex array, the cache has no
  shard for it, a connection is acquired and \<^verbatim>\<open>HGET\<close> answers with a nil reply and no
  error, \<open>Get\<close> returns the nil hash (for which \<open>IsNil\<close> holds) and no error.
\<close>

theorem lbaGet_absent_shard:
  assumes si: "si = blockIndex sdiv NumberOfRecordsPerLBAShard"
    and range: "0 \<le> si" "si < int (length (shardMux l))"
    and miss: "\<not> snd (fst (cacheGet (cache l) si))"
    and conn: "MetaRedisConnection (provider l) (world l) = (Inr c, w1)"
    and absent: "connDo (provider l) c ''HGET'' [ArgString (volumeID l), ArgInt si] w1
                   = ((ReplyNil, None), w2)"
  shows "(\<exists>l'. lbaGet blockIndex l = Ret (([], None), l')) \<and> IsNil HashSize []"
proof -
  let ?l0 = "logEvent (EvLock si) l"
  have "getShard si ?l0 =
           ((None, None),
            ?l0\<lparr>cache := snd (cacheGet (cache ?l0) si),
              world := connClose (provider ?l0) c w2,
              trace := trace ?l0 @ [EvCacheGet si, EvConnect (Inr c),
                                  EvDo c ''HGET'' [ArgString (volumeID ?l0), ArgInt si] ReplyNil None,
                                  EvClose c]\<rparr>)"
    using getShard_absent [of ?l0 si c w1 w2] miss conn absent by simp
  then have "\<exists>l'. lbaGet blockIndex l = Ret (([], None), l')"
    using range by (simp add: lbaGet_def si [symmetric] Let_def)
  then show ?thesis
    by (simp add: IsNil_def)
qed

theorem lbaGet_absent_shard_witness:
  "\<not> snd (fst (cacheGet (cache (freshLBA okProvider)) 0))
   \<and> connDo okProvider 7 ''HGET'' [ArgString ''vol'', ArgInt 0] () = ((ReplyNil, None), ())
   \<and> (\<exists>l'. lbaGet 5 (freshLBA okProvider) = Ret (([], None), l'))"
proof -
  have si: "(0::int) = 5 sdiv NumberOfRecordsPerLBAShard"
    by (simp add: NumberOfRecordsPerLBAShard_def signed_divide_int_def)
  have range: "(0::int) \<le> 0" "0 < int (length (shardMux (freshLBA okProvider)))"
    by (simp_all add: freshLBA_def)
  have miss: "\<not> snd (fst (cacheGet (cache (freshLBA okProvider)) 0))"
    by (simp add: freshLBA_def cacheGet_def)
  have conn: "MetaRedisConnection (provider (freshLBA okProvider)) (world (freshLBA okProvider)) = (Inr 7, ())"
    by (simp add: freshLBA_def okProvider_def stubProvider_def)
  have absent: "connDo (provider (freshLBA okProvider)) 7 ''HGET''
                  [ArgString (volumeID (freshLBA okProvider)), ArgInt 0] () = ((ReplyNil, None), ())"
    by (simp add: freshLBA_def okProvider_def stubProvider_def)
  from absent have "connDo okProvider 7 ''HGET'' [ArgString ''vol'', ArgInt 0] () = ((ReplyNil, None), ())"
    by (simp add: freshLBA_def)
  with miss lbaGet_absent_shard [OF si range miss conn absent] show ?thesis
    by blast
qed



subsection \<open>Flush\<close>

lemma serializeCallback_result:
  assumes "serializeCallback c vid index b l = (e, l')"
  shows "trace l' = trace l @ [sendEvent c vid (index, b) e]"
    and "heap l' = heap l" and "cache l' = cache l"
    and "provider l' = provider l" and "volumeID l' = volumeID l"
  using assms
  by (cases b; auto simp add: serializeCallback_def dest: sendCmd_result)+

lemma dirtyEntries_Cons:
  "dirtyEntries hp ((i, s) # es) =
     (if shardDirty hp s then (i, serializedBytes hp s) # dirtyEntries hp es
      else dirtyEntries hp es)"
  by (simp add: dirtyEntries_def)

lemma serializeEntries_flush:
  "\<exists>errs. length errs = length (dirtyEntries (heap l) es)
     \<and> trace (serializeEntries (serializeCallback c vid) es l) =
         trace l @ map2 (sendEvent c vid) (dirtyEntries (heap l) es) errs
     \<and> heap (serializeEntries (serializeCallback c vid) es l) = heap l
     \<and> cache (serializeEntries (serializeCallback c vid) es l) = cache l
     \<and> provider (serializeEntries (serializeCallback c vid) es l) = provider l
     \<and> volumeID (serializeEntries (serializeCallback c vid) es l) = volumeID l"
proof (induction es arbitrary: l)
  case Nil
  then show ?case by (simp add: dirtyEntries_def)
next
  case (Cons x es)
  obtain i s where x: "x = (i, s)" by (cases x)
  show ?case
  proof (cases "shardDirty (heap l) s")
    case False
    with Cons.IH [of l] show ?thesis
      by (simp add: x dirtyEntries_Cons)
  next
    case True
    obtain e l1 where cb: "serializeCallback c vid i (serializedBytes (heap l) s) l = (e, l1)"
      by (cases "serializeCallback c vid i (serializedBytes (heap l) s) l")
    note r = serializeCallback_result [OF cb]
    from Cons.IH [of l1] obtain errs where
      len: "length errs = length (dirtyEntries (heap l1) es)"
      and tr: "trace (serializeEntries (serializeCallback c vid) es l1) =
                 trace l1 @ map2 (sendEvent c vid) (dirtyEntries (heap l1) es) errs"
      and fr: "heap (serializeEntries (serializeCallback c vid) es l1) = heap l1"
        "cache (serializeEntries (serializeCallback c vid) es l1) = cache l1"
        "provider (serializeEntries (serializeCallback c vid) es l1) = provider l1"
        "volumeID (serializeEntries (serializeCallback c vid) es l1) = volumeID l1"
      by blast
    have step: "serializeEntries (serializeCallback c vid) (x # es) l =
                serializeEntries (serializeCallback c vid) es l1"
      using True by (simp add: x cb)
    show ?thesis
      unfolding step
      by (rule exI [of _ "e # errs"]) (simp add: len tr fr r True x dirtyEntries_Cons)
  qed
qed

lemma flush_shape:
  assumes conn: "MetaRedisConnection (provider l) (world l) = (Inr c, w1)"
    and multi: "connSend (provider l) c ''MULTI'' [] w1 = (None, w2)"
  shows "\<exists>errs rep. length errs = length (dirtyEntries (heap l) (entries (cache l)))
     \<and> trace (snd (lbaFlush l)) =
         trace l @ [EvConnect (Inr c), EvSend c ''MULTI'' [] None, EvCacheSerialize]
           @ map2 (sendEvent c (volumeID l)) (dirtyEntries (heap l) (entries (cache l))) errs
           @ [EvDo c ''EXEC'' [] rep (fst (lbaFlush l))]
           @ (if fst (lbaFlush l) = None then [] else [EvCacheClear False])
           @ [EvClose c]
     \<and> heap (snd (lbaFlush l)) = heap l
     \<and> entries (cache (snd (lbaFlush l))) = (if fst (lbaFlush l) = None then entries (cache l) else [])"
proof -
  obtain r1 l1 where a: "acquire l = (r1, l1)"
    by (cases "acquire l")
  note a1 = acquire_result [OF a]
  from a1(1) conn have r1: "r1 = Inr c" by simp
  obtain r2 l2 where m: "sendCmd c ''MULTI'' [] l1 = (r2, l2)"
    by (cases "sendCmd c ''MULTI'' [] l1")
  note m1 = sendCmd_result [OF m]
  from m1(1) a1 conn multi have r2: "r2 = None" by simp
  let ?l2' = "logEvent EvCacheSerialize l2"
  let ?l3 = "serializeEntries (serializeCallback c (volumeID l)) (entries (cache l2)) ?l2'"
  from serializeEntries_flush [of ?l2' "entries (cache l2)" c "volumeID l"]
  obtain errs where
    len: "length errs = length (dirtyEntries (heap ?l2') (entries (cache l2)))"
    and tr: "trace ?l3 = trace ?l2' @ map2 (sendEvent c (volumeID l)) (dirtyEntries (heap ?l2') (entries (cache l2))) errs"
    and fr: "heap ?l3 = heap ?l2'" "cache ?l3 = cache ?l2'" "provider ?l3 = provider ?l2'"
    by blast
  obtain rep err l4 where d: "doCmd c ''EXEC'' [] ?l3 = ((rep, err), l4)"
    by (cases "doCmd c ''EXEC'' [] ?l3") auto
  note d1 = doCmd_result [OF d]
  have res: "lbaFlush l =
      (err, closeConn c (if err \<noteq> None then cacheClear onCacheEviction False l4 else l4))"
    by (simp add: lbaFlush_def storeCacheInExternalStorage_def a r1 m r2 cacheSerialize_def d Let_def)
  have same: "heap l2 = heap l" "cache l2 = cache l"
    using a1 m1 by simp_all
  have t2: "trace l2 = trace l @ [EvConnect (Inr c), EvSend c ''MULTI'' [] None]"
    using a1(2) m1(2) r1 r2 by simp
  have t4: "trace l4 = trace l @ [EvConnect (Inr c), EvSend c ''MULTI'' [] None, EvCacheSerialize]
           @ map2 (sendEvent c (volumeID l)) (dirtyEntries (heap l) (entries (cache l))) errs
           @ [EvDo c ''EXEC'' [] rep err]"
    using d1(2) tr t2 by (simp add: same)
  have f4: "heap l4 = heap l" "cache l4 = cache l"
    using d1(6,7) fr by (simp_all add: same)
  have len': "length errs = length (dirtyEntries (heap l) (entries (cache l)))"
    using len by (simp add: same)
  show ?thesis
    unfolding res
    by (rule exI [of _ errs], rule exI [of _ rep]) (simp add: len' t4 f4 cacheClear_def)
qed

lemma sendEvent_not_exec: "\<not> isExec (sendEvent c vid p e)"
  by (cases p; cases "snd p") simp_all

lemma sends_not_exec: "list_all (\<lambda>e. \<not> isExec e) (map2 (sendEvent c vid) ps errs)"
  by (auto simp add: list_all_iff sendEvent_not_exec)

lemmas flush_defs =
  lbaFlush_def storeCacheInExternalStorage_def acquire_def sendCmd_def doCmd_def closeConn_def
  logEvent_def cacheSerialize_def serializeCallback_def cacheClear_def shardDirty_def
  serializedBytes_def

text \<open>
  C5. A flush that is given a connection and buffers \<^verbatim>\<open>MULTI\<close> on it without error
  performs, in this order and all on that one connection: \<^verbatim>\<open>MULTI\<close>, the serialization
  of the cache with one \<^verbatim>\<open>Send\<close> per dirty entry (\<^verbatim>\<open>HSET volume index bytes\<close> for a
  shard, \<^verbatim>\<open>HDEL volume index\<close> for a tombstone, as \<open>sendEvent\<close> spells out), \<^verbatim>\<open>EXEC\<close>,
  and the release of the connection. Nothing else is sent, whatever the answers are.
\<close>

theorem flush_transaction:
  assumes conn: "MetaRedisConnection (provider l) (world l) = (Inr c, w1)"
    and multi: "connSend (provider l) c ''MULTI'' [] w1 = (None, w2)"
  shows "\<exists>errs rep err. length errs = length (dirtyEntries (heap l) (entries (cache l)))
     \<and> trace (snd (lbaFlush l)) =
         trace l @ [EvConnect (Inr c), EvSend c ''MULTI'' [] None, EvCacheSerialize]
           @ map2 (sendEvent c (volumeID l)) (dirtyEntries (heap l) (entries (cache l))) errs
           @ [EvDo c ''EXEC'' [] rep err]
           @ (if err = None then [] else [EvCacheClear False])
           @ [EvClose c]"
  using flush_shape [OF conn multi] by blast

theorem flush_transaction_witness:
  "MetaRedisConnection okProvider () = (Inr 7, ())
   \<and> connSend okProvider 7 ''MULTI'' [] () = (None, ())
   \<and> (\<exists>errs rep err. length errs = 1
      \<and> trace (snd (lbaFlush (dirtyLBA okProvider))) =
          [EvConnect (Inr 7), EvSend 7 ''MULTI'' [] None, EvCacheSerialize]
            @ map2 (sendEvent 7 ''vol'')
                [(0, Some (fst (shardWrite (heap (dirtyLBA okProvider) ! 0) [])))] errs
            @ [EvDo 7 ''EXEC'' [] rep err]
            @ (if err = None then [] else [EvCacheClear False])
            @ [EvClose 7])"
proof -
  have conn: "MetaRedisConnection (provider (dirtyLBA okProvider)) (world (dirtyLBA okProvider)) = (Inr 7, ())"
    by (simp add: dirtyLBA_def okProvider_def stubProvider_def)
  have multi: "connSend (provider (dirtyLBA okProvider)) 7 ''MULTI'' [] () = (None, ())"
    by (simp add: dirtyLBA_def okProvider_def stubProvider_def)
  have d: "dirtyEntries (heap (dirtyLBA okProvider)) (entries (cache (dirtyLBA okProvider)))
             = [(0, Some (fst (shardWrite (heap (dirtyLBA okProvider) ! 0) [])))]"
    by (simp add: dirtyEntries_def shardDirty_def serializedBytes_def dirtyLBA_def)
  have f: "trace (dirtyLBA okProvider) = []" "volumeID (dirtyLBA okProvider) = ''vol''"
    "provider (dirtyLBA okProvider) = okProvider"
    by (simp_all add: dirtyLBA_def)
  from flush_transaction [OF conn multi] conn multi show ?thesis
    unfolding d f by simp
qed

theorem flush_transaction_counterexample:
  "dirtyEntries (heap (dirtyLBA downProvider)) (entries (cache (dirtyLBA downProvider))) \<noteq> []
   \<and> fst (lbaFlush (dirtyLBA downProvider)) = Some (ErrExternal ''unavailable'')
   \<and> trace (snd (lbaFlush (dirtyLBA downProvider))) = [EvConnect (Inl (ErrExternal ''unavailable''))]"
  by (simp add: lbaFlush_def storeCacheInExternalStorage_def acquire_def dirtyLBA_def
      downProvider_def stubProvider_def logEvent_def dirtyEntries_def shardDirty_def)

text \<open>
  C6. A flush that reaches the commit (it was given a connection and \<^verbatim>\<open>MULTI\<close> was
  buffered without error) executes \<^verbatim>\<open>EXEC\<close> exactly once and returns exactly the error
  of that call, whatever the reply is: it fails when the call returns an error and
  succeeds when the call returns none, also on a nil reply.
\<close>

theorem flush_returns_exec_error:
  assumes conn: "MetaRedisConnection (provider l) (world l) = (Inr c, w1)"
    and multi: "connSend (provider l) c ''MULTI'' [] w1 = (None, w2)"
  shows "\<exists>pre rep post.
           trace (snd (lbaFlush l)) =
             trace l @ pre @ [EvDo c ''EXEC'' [] rep (fst (lbaFlush l))] @ post
         \<and> list_all (\<lambda>e. \<not> isExec e) pre \<and> list_all (\<lambda>e. \<not> isExec e) post"
proof -
  from flush_shape [OF conn multi] obtain errs rep where
    tr: "trace (snd (lbaFlush l)) =
         trace l @ [EvConnect (Inr c), EvSend c ''MULTI'' [] None, EvCacheSerialize]
           @ map2 (sendEvent c (volumeID l)) (dirtyEntries (heap l) (entries (cache l))) errs
           @ [EvDo c ''EXEC'' [] rep (fst (lbaFlush l))]
           @ (if fst (lbaFlush l) = None then [] else [EvCacheClear False])
           @ [EvClose c]"
    by blast
  let ?pre = "[EvConnect (Inr c), EvSend c ''MULTI'' [] None, EvCacheSerialize]
           @ map2 (sendEvent c (volumeID l)) (dirtyEntries (heap l) (entries (cache l))) errs"
  let ?post = "(if fst (lbaFlush l) = None then [] else [EvCacheClear False]) @ [EvClose c]"
  have "list_all (\<lambda>e. \<not> isExec e) ?pre"
    using sends_not_exec [of c "volumeID l" "dirtyEntries (heap l) (entries (cache l))" errs]
    by simp
  moreover have "list_all (\<lambda>e. \<not> isExec e) ?post"
    by simp
  moreover have "trace (snd (lbaFlush l)) =
      trace l @ ?pre @ [EvDo c ''EXEC'' [] rep (fst (lbaFlush l))] @ ?post"
    using tr by simp
  ultimately show ?thesis
    by blast
qed

theorem flush_returns_exec_error_witness:
  "MetaRedisConnection (failingProvider ''EXEC'') () = (Inr 7, ())
   \<and> connSend (failingProvider ''EXEC'') 7 ''MULTI'' [] () = (None, ())
   \<and> fst (lbaFlush (dirtyLBA (failingProvider ''EXEC''))) = Some (ErrExternal ''connection reset'')
   \<and> (\<exists>pre rep post.
           trace (snd (lbaFlush (dirtyLBA (failingProvider ''EXEC'')))) =
             pre @ [EvDo 7 ''EXEC'' [] rep (Some (ErrExternal ''connection reset''))] @ post
         \<and> list_all (\<lambda>e. \<not> isExec e) pre \<and> list_all (\<lambda>e. \<not> isExec e) post)"
proof -
  let ?l = "dirtyLBA (failingProvider ''EXEC'')"
  have conn: "MetaRedisConnection (provider ?l) (world ?l) = (Inr 7, ())"
    by (simp add: dirtyLBA_def failingProvider_def stubProvider_def)
  have multi: "connSend (provider ?l) 7 ''MULTI'' [] () = (None, ())"
    by (simp add: dirtyLBA_def failingProvider_def stubProvider_def)
  have f: "trace ?l = []" "provider ?l = failingProvider ''EXEC''" "world ?l = ()"
    by (simp_all add: dirtyLBA_def)
  have r: "fst (lbaFlush ?l) = Some (ErrExternal ''connection reset'')"
    by (simp add: flush_defs dirtyLBA_def failingProvider_def stubProvider_def)
  from flush_returns_exec_error [OF conn multi] conn multi r show ?thesis
    unfolding f by simp
qed

theorem flush_nil_reply_counterexample:
  "filter isExec (trace (snd (lbaFlush (dirtyLBA nilExecProvider)))) = [EvDo 7 ''EXEC'' [] ReplyNil None]
   \<and> fst (lbaFlush (dirtyLBA nilExecProvider)) = None"
  by (simp add: flush_defs dirtyLBA_def nilExecProvider_def stubProvider_def)

subsection \<open>Flush and eviction against the dirty bit\<close>

text \<open>
  C1. With one dirty shard in the cache: when \<^verbatim>\<open>EXEC\<close> succeeds, the flush returns no
  error, never calls \<open>Clear\<close> and the cache still holds the shard; when \<^verbatim>\<open>EXEC\<close> fails,
  the flush returns the error, calls \<open>Clear(false)\<close> and leaves the cache empty, so that
  nothing is left for a later flush to emit.
\<close>

theorem flush_clears_on_failure_only:
  "fst (lbaFlush (dirtyLBA okProvider)) = None
   \<and> EvCacheClear False \<notin> set (trace (snd (lbaFlush (dirtyLBA okProvider))))
   \<and> entries (cache (snd (lbaFlush (dirtyLBA okProvider)))) = [(0, Some 0)]
   \<and> fst (lbaFlush (dirtyLBA (failingProvider ''EXEC''))) = Some (ErrExternal ''connection reset'')
   \<and> EvCacheClear False \<in> set (trace (snd (lbaFlush (dirtyLBA (failingProvider ''EXEC'')))))
   \<and> entries (cache (snd (lbaFlush (dirtyLBA (failingProvider ''EXEC''))))) = []
   \<and> dirtyEntries (heap (snd (lbaFlush (dirtyLBA (failingProvider ''EXEC'')))))
        (entries (cache (snd (lbaFlush (dirtyLBA (failingProvider ''EXEC'')))))) = []"
  by (simp add: flush_defs dirtyLBA_def okProvider_def failingProvider_def stubProvider_def
      dirtyEntries_def)

text \<open>
  C2. Storing one dirty shard during eviction: when \<^verbatim>\<open>HSET\<close> succeeds the shard is still
  dirty afterwards; when \<^verbatim>\<open>HSET\<close> fails the error is returned and the dirty bit has been
  cleared.
\<close>

theorem store_unsets_dirty_on_failure_only:
  "fst (storeShardInExternalStorage 0 0 (dirtyLBA okProvider)) = None
   \<and> map dirty (heap (snd (storeShardInExternalStorage 0 0 (dirtyLBA okProvider)))) = [True]
   \<and> fst (storeShardInExternalStorage 0 0 (dirtyLBA (failingProvider ''HSET'')))
        = Some (ErrExternal ''connection reset'')
   \<and> map dirty (heap (snd (storeShardInExternalStorage 0 0 (dirtyLBA (failingProvider ''HSET'')))))
        = [False]"
  by (simp add: storeShardInExternalStorage_def flush_defs shardWrite_def shardUnsetDirty_def
      dirtyLBA_def okProvider_def failingProvider_def stubProvider_def)

text \<open>
  C3. The eviction callback on a tombstone (which \<open>shardDirty\<close> counts as dirty) asks
  the provider for a connection. Given one, it executes exactly \<^verbatim>\<open>HDEL volume index\<close> on
  it and closes it; given none, it sends nothing. Either way it returns: the error of the
  acquisition or of the \<^verbatim>\<open>HDEL\<close> ends as a log line, and neither the cache nor the heap
  is touched.
\<close>

theorem eviction_of_tombstone:
  "trace (onCacheEviction index None l) =
     trace l @
       (case MetaRedisConnection (provider l) (world l) of
          (Inl e, w1) \<Rightarrow> [EvConnect (Inl e), EvLog index e]
        | (Inr c, w1) \<Rightarrow>
            (case connDo (provider l) c ''HDEL'' [ArgString (volumeID l), ArgInt index] w1 of
               ((rep, err), w2) \<Rightarrow>
                 [EvConnect (Inr c),
                  EvDo c ''HDEL'' [ArgString (volumeID l), ArgInt index] rep err,
                  EvClose c]
                 @ (case err of None \<Rightarrow> [] | Some e \<Rightarrow> [EvLog index e])))
   \<and> cache (onCacheEviction index None l) = cache l
   \<and> heap (onCacheEviction index None l) = heap l"
  by (simp add: onCacheEviction_def shardDirty_def deleteShardFromExternalStorage_def
      acquire_def doCmd_def closeConn_def logEvent_def
      split: prod.splits sum.splits option.splits)

theorem eviction_of_tombstone_counterexample:
  "trace (onCacheEviction 3 None (freshLBA downProvider))
     = [EvConnect (Inl (ErrExternal ''unavailable'')), EvLog 3 (ErrExternal ''unavailable'')]
   \<and> \<not> list_ex isCommand (trace (onCacheEviction 3 None (freshLBA downProvider)))"
  by (simp add: onCacheEviction_def shardDirty_def deleteShardFromExternalStorage_def
      acquire_def logEvent_def freshLBA_def downProvider_def stubProvider_def)

subsection \<open>The scope of the shard lock in Set\<close>

lemma alloc_result:
  assumes "alloc s l = (a, l')"
  shows "trace l' = trace l" and "a = length (heap l)"
  using assms by (auto simp add: alloc_def)

text \<open>
  C7. Every \<open>Set\<close> that returns has this trace: the lock of the shard is taken, the
  cache lookup and whatever it entails (fetch, insertion, eviction: quiet events, none of
  them a mutex operation or an access to hashes) happen, the lock is released, and only
  then, if no error occurred, the hash is written into the shard.
\<close>

theorem lbaSet_lock_scope:
  assumes ret: "lbaSet blockIndex h l = Ret (err, l')"
  shows "\<exists>evs tail. list_all quiet evs
     \<and> trace l' = trace l
          @ [EvLock (blockIndex sdiv NumberOfRecordsPerLBAShard),
             EvCacheGet (blockIndex sdiv NumberOfRecordsPerLBAShard)]
          @ evs
          @ [EvUnlock (blockIndex sdiv NumberOfRecordsPerLBAShard)]
          @ tail
     \<and> (case err of
           None \<Rightarrow> (\<exists>a. tail = [EvShardSet a (blockIndex smod NumberOfRecordsPerLBAShard) h])
         | Some e \<Rightarrow> tail = [])"
proof -
  let ?si = "blockIndex sdiv NumberOfRecordsPerLBAShard"
  let ?hi = "blockIndex smod NumberOfRecordsPerLBAShard"
  let ?l0 = "logEvent (EvLock ?si) l"
  from ret have inrange: "\<not> (?si < 0 \<or> int (length (shardMux l)) \<le> ?si)"
    by (auto simp add: lbaSet_def Let_def split: if_splits)
  obtain shard0 err0 l1 where g: "getShard ?si ?l0 = ((shard0, err0), l1)"
    by (cases "getShard ?si ?l0") auto
  from getShard_trace [OF g] obtain evs1 where
    t1: "trace l1 = trace l @ [EvLock ?si, EvCacheGet ?si] @ evs1" and q1: "list_all quiet evs1"
    by auto
  show ?thesis
  proof (cases err0)
    case (Some e)
    with ret inrange g have "err = Some e" "l' = logEvent (EvUnlock ?si) l1"
      by (auto simp add: lbaSet_def Let_def)
    with t1 q1 show ?thesis
      by (intro exI [of _ evs1] exI [of _ "[]"]) simp
  next
    case None
    show ?thesis
    proof (cases shard0)
      case (Some a)
      with None ret inrange g obtain s where
        "err = None" "l' = (logEvent (EvShardSet a ?hi h) (logEvent (EvUnlock ?si) l1))
             \<lparr>heap := (heap (logEvent (EvUnlock ?si) l1))[a := s]\<rparr>"
        by (auto simp add: lbaSet_def Let_def split: outcome.splits)
      with t1 q1 show ?thesis
        by (intro exI [of _ evs1] exI [of _ "[EvShardSet a ?hi h]"]) simp
    next
      case none: None
      obtain a l2 where al: "alloc (newShard HashSize) l1 = (a, l2)"
        by (cases "alloc (newShard HashSize) l1")
      let ?l3 = "cacheAdd onCacheEviction ?si (Some a) l2"
      from quietStep_cacheAdd [of l2 ?si "Some a"] obtain evs2 where
        t3: "trace ?l3 = trace l2 @ evs2" and q2: "list_all quiet evs2"
        by (blast dest: quietStepD)
      from None none ret inrange g al obtain s where
        "err = None" "l' = (logEvent (EvShardSet a ?hi h) (logEvent (EvUnlock ?si) ?l3))
             \<lparr>heap := (heap (logEvent (EvUnlock ?si) ?l3))[a := s]\<rparr>"
        by (auto simp add: lbaSet_def Let_def split: outcome.splits)
      with t1 q1 t3 q2 alloc_result(1) [OF al] show ?thesis
        by (intro exI [of _ "evs1 @ evs2"] exI [of _ "[EvShardSet a ?hi h]"]) simp
    qed
  qed
qed

lemma go_div_example: "(5::int) sdiv NumberOfRecordsPerLBAShard = 0"
  "(5::int) smod NumberOfRecordsPerLBAShard = 5"
  by (simp_all add: NumberOfRecordsPerLBAShard_def signed_divide_int_def signed_modulo_int_def)

theorem lbaSet_lock_scope_witness:
  "(case lbaSet 5 (replicate 32 1) (freshLBA okProvider) of
      Ret (e, l') \<Rightarrow>
        e = None
        \<and> (\<exists>evs a. list_all quiet evs
              \<and> trace l' = [EvLock 0, EvCacheGet 0] @ evs @ [EvUnlock 0, EvShardSet a 5 (replicate 32 1)])
    | Panic p \<Rightarrow> False)"
proof (cases "lbaSet 5 (replicate 32 1) (freshLBA okProvider)")
  case (Panic p)
  moreover have "(case lbaSet 5 (replicate 32 1) (freshLBA okProvider) of
      Ret x \<Rightarrow> True | Panic p \<Rightarrow> False)"
    by code_simp
  ultimately show ?thesis by simp
next
  case (Ret x)
  obtain e l' where x: "x = (e, l')" by (cases x)
  have "(case lbaSet 5 (replicate 32 1) (freshLBA okProvider) of
      Ret (e, l') \<Rightarrow> e = None | Panic p \<Rightarrow> False)"
    by code_simp
  with Ret x have e: "e = None" by simp
  have t: "trace (freshLBA okProvider) = []"
    by (simp add: freshLBA_def)
  from lbaSet_lock_scope [of 5 "replicate 32 1" "freshLBA okProvider" e l'] Ret x
  obtain evs tail where "list_all quiet evs"
    and "trace l' = [EvLock 0, EvCacheGet 0] @ evs @ [EvUnlock 0] @ tail"
    and "\<exists>a. tail = [EvShardSet a 5 (replicate 32 1)]"
    unfolding e go_div_example t by auto
  then show ?thesis
    using Ret x e by auto
qed

theorem lbaSet_mutation_counterexample:
  "(case lbaSet 5 (replicate 32 1) (freshLBA okProvider) of
      Ret (e, l') \<Rightarrow>
        e = None
        \<and> trace l' = [EvLock 0, EvCacheGet 0, EvConnect (Inr 7),
                      EvDo 7 ''HGET'' [ArgString ''vol'', ArgInt 0] ReplyNil None, EvClose 7,
                      EvCacheAdd 0 (Some 0), EvUnlock 0, EvShardSet 0 5 (replicate 32 1)]
        \<and> \<not> underLock [] (trace l')
    | Panic p \<Rightarrow> False)"
  by code_simp

subsection \<open>The concrete states are states of the code\<close>

text \<open>
  \<open>freshLBA p\<close> is what \<open>NewLBA\<close> returns for 256 blocks, and \<open>dirtyLBA p\<close> is the state
  that setting the hash of block 5 leaves behind (up to the trace), on any server that
  holds no shard 0.
\<close>

lemma freshLBA_constructed:
  "NewLBA linuxAmd64 ''vol'' 256 4096 (Some p) () = Ret (Some (freshLBA p), None)"
  by (simp add: NewLBA_def makeMutexes_def linuxAmd64_def freshLBA_def newShardCache_def
      NumberOfRecordsPerLBAShard_def HashSize_def Let_def signed_divide_int_def
      signed_modulo_int_def numeral_2_eq_2)

lemma dirtyLBA_reached:
  assumes conn: "MetaRedisConnection p () = (Inr c, ())"
    and absent: "connDo p c ''HGET'' [ArgString ''vol'', ArgInt 0] () = ((ReplyNil, None), ())"
  shows "\<exists>l'. lbaSet 5 (replicate HashSize 1) (freshLBA p) = Ret (None, l')
            \<and> cache l' = cache (dirtyLBA p) \<and> heap l' = heap (dirtyLBA p)
            \<and> shardMux l' = shardMux (dirtyLBA p) \<and> provider l' = provider (dirtyLBA p)
            \<and> volumeID l' = volumeID (dirtyLBA p)"
proof -
  let ?l0 = "logEvent (EvLock 0) (freshLBA p)"
  have g: "getShard 0 ?l0 =
           ((None, None),
            ?l0\<lparr>cache := snd (cacheGet (cache ?l0) 0),
              world := connClose (provider ?l0) c (),
              trace := trace ?l0 @ [EvCacheGet 0, EvConnect (Inr c),
                                  EvDo c ''HGET'' [ArgString (volumeID ?l0), ArgInt 0] ReplyNil None,
                                  EvClose c]\<rparr>)"
    using conn absent
    by (intro getShard_absent [where ?w1.0 = "()" and ?w2.0 = "()"])
       (simp_all add: freshLBA_def cacheGet_def)
  have f: "shardMux (freshLBA p) = [Mutex, Mutex]" "heap (freshLBA p) = []"
    "cache (freshLBA p) = \<lparr>entries = [], capacity = 1\<rparr>" "provider (freshLBA p) = p"
    "volumeID (freshLBA p) = ''vol''"
    by (simp_all add: freshLBA_def)
  show ?thesis
    by (simp add: lbaSet_def go_div_example g Let_def alloc_def cacheAdd_def shardSet_def
        newShard_def NumberOfRecordsPerLBAShard_def f dirtyLBA_def cacheGet_def)
qed

end
